theory Spec2Isabelle
  imports Main "HOL-Library.Sublist" "HOL-Library.Char_ord" "HOL-Library.List_Lexorder"
begin

section \<open>Values, requests and what a handler does\<close>

text \<open>
  The three components of \<^verbatim>\<open>StaffLeaveManager.tsx\<close> (the leave manager, the menu item
  form and the staff roster) are event handlers around a hosted backend. A handler is
  modelled as a function from what it reads (component state, arguments, and the answers
  of the calls it awaits) to the list of things it does, in program order. Calls of
  state setters are in that list; \<open>run\<close> replays them on the state.

  A JavaScript object is a finite map from property names to values. \<open>Float t\<close> stands
  for the number \<^verbatim>\<open>parseFloat(t)\<close>; it is never inspected.
\<close>

datatype val = Str string | Bool bool | Null | Float string

type_synonym obj = "string \<rightharpoonup> val"

text \<open>An object literal, in the order it is written; the \<^verbatim>\<open>.eq(column, value)\<close> calls of a query.\<close>

type_synonym payload = "(string \<times> val) list"
type_synonym filters = "(string \<times> val) list"

datatype columns = AllColumns | Columns "string list"

text \<open>
  One call chain on the backend client:
  \<^verbatim>\<open>from(t).select(cols).eq(..)[.order(col)]\<close>, \<^verbatim>\<open>from(t).insert(rows)\<close>,
  \<^verbatim>\<open>from(t).update(values).eq(..)\<close> and \<^verbatim>\<open>from(t).delete().eq(..)\<close>.
\<close>

datatype request =
    Select string columns filters "string option"
  | Insert string "payload list"
  | Update string payload filters
  | Delete string filters

text \<open>A toast: title, description (when given) and whether its variant is "destructive".\<close>

datatype notification = Notify string "string option" bool

text \<open>
  What a \<^verbatim>\<open>catch\<close> receives: an \<^verbatim>\<open>Error\<close> with its message, or any other value.
\<close>

datatype thrown = Err string | Other

text \<open>A \<^verbatim>\<open>File\<close> of the browser: its \<^verbatim>\<open>name\<close>, \<^verbatim>\<open>size\<close> in bytes and MIME \<^verbatim>\<open>type\<close>.\<close>

record File =
  file_name :: string
  file_size :: nat
  file_type :: string

datatype effect =
    Toast notification
  | GetUser
  | Backend request
  | Fetch string "(string \<times> string) list"
  | ConsoleLog string
  | ConsoleError string
  | Refetch
  | SetSelectedFile "File option"
  | SetIsUploading bool
  | SetUploadProgress nat
  | SetUploadedImageUrl string
  | FormSetValue string string
  | SetIsSubmitting bool
  | OnSuccess
  | OnClose

fun requests :: "effect list \<Rightarrow> request list" where
  "requests [] = []"
| "requests (Backend r # es) = r # requests es"
| "requests (_ # es) = requests es"

fun is_network :: "effect \<Rightarrow> bool" where
  "is_network GetUser = True"
| "is_network (Backend _) = True"
| "is_network (Fetch _ _) = True"
| "is_network _ = False"

text \<open>JavaScript truthiness of a string, and of a \<^verbatim>\<open>string | null | undefined\<close>.\<close>

definition truthy :: "string \<Rightarrow> bool" where
  "truthy s = (s \<noteq> [])"

definition truthy_opt :: "string option \<Rightarrow> bool" where
  "truthy_opt x = (case x of None \<Rightarrow> False | Some s \<Rightarrow> truthy s)"

section \<open>The backend collaborator\<close>

text \<open>
  Modelled from the spec: the backend data collaborator (the hosted database behind the
  client object \<^verbatim>\<open>supabase\<close>, whose code is not part of the sources). It "exposes
  table-like collections queryable with equality filters, ordering", and "supports
  insert/update/delete by identity". A table is a list of rows, a row an object. An
  inserted row holds the given values only: columns the database fills in are left out.
\<close>

type_synonym db = "string \<Rightarrow> obj list"

definition matches :: "filters \<Rightarrow> obj \<Rightarrow> bool" where
  "matches fs r = list_all (\<lambda>(c, v). r c = Some v) fs"

definition project :: "columns \<Rightarrow> obj \<Rightarrow> obj" where
  "project cs r = (case cs of AllColumns \<Rightarrow> r | Columns ks \<Rightarrow> r |` set ks)"

definition order_key :: "string \<Rightarrow> obj \<Rightarrow> string" where
  "order_key c r = (case r c of Some (Str s) \<Rightarrow> s | _ \<Rightarrow> [])"

definition ordered :: "string option \<Rightarrow> obj list \<Rightarrow> obj list" where
  "ordered ord rs = (case ord of None \<Rightarrow> rs | Some c \<Rightarrow> sort_key (order_key c) rs)"

definition select_rows :: "db \<Rightarrow> string \<Rightarrow> columns \<Rightarrow> filters \<Rightarrow> string option \<Rightarrow> obj list" where
  "select_rows d t cs fs ord = map (project cs) (ordered ord (filter (matches fs) (d t)))"

text \<open>\<^verbatim>\<open>.single()\<close>: the row when the query has exactly one, no data otherwise.\<close>

definition single :: "obj list \<Rightarrow> obj option" where
  "single rs = (case rs of [r] \<Rightarrow> Some r | _ \<Rightarrow> None)"

definition update_row :: "payload \<Rightarrow> filters \<Rightarrow> obj \<Rightarrow> obj" where
  "update_row vs fs r = (if matches fs r then r ++ map_of (rev vs) else r)"

fun exec :: "request \<Rightarrow> db \<Rightarrow> db" where
  "exec (Select t cs fs ord) d = d"
| "exec (Insert t rows) d = d(t := d t @ map (\<lambda>vs. map_of (rev vs)) rows)"
| "exec (Update t vs fs) d = d(t := map (update_row vs fs) (d t))"
| "exec (Delete t fs) d = d(t := filter (\<lambda>r. \<not> matches fs r) (d t))"

section \<open>Tenant resolution\<close>

text \<open>
  The same lookup opens every query and the roster's submit handler:
  \<^verbatim>\<open>from("profiles").select("restaurant_id").eq("id", profile.user.id).single()\<close>,
  then \<^verbatim>\<open>userProfile?.restaurant_id\<close>, a \<^verbatim>\<open>string | null\<close>.
\<close>

definition profile_request :: "string \<Rightarrow> request" where
  "profile_request uid = Select ''profiles'' (Columns [''restaurant_id'']) [(''id'', Str uid)] None"

definition userProfile_of :: "string \<Rightarrow> db \<Rightarrow> obj option" where
  "userProfile_of uid d =
     single (select_rows d ''profiles'' (Columns [''restaurant_id'']) [(''id'', Str uid)] None)"

definition restaurant_id_of :: "obj option \<Rightarrow> string option" where
  "restaurant_id_of p =
     (case p of None \<Rightarrow> None
      | Some r \<Rightarrow> (case r ''restaurant_id'' of Some (Str s) \<Rightarrow> Some s | _ \<Rightarrow> None))"

section \<open>Leave manager\<close>

record leave_form =
  isAddLeaveOpen :: bool
  selectedStaffId :: string
  startDate :: string
  endDate :: string
  reason :: string

text \<open>The query \<^verbatim>\<open>["restaurant-id"]\<close>: it throws without a user.\<close>

definition restaurantIdQueryFn :: "string option \<Rightarrow> db \<Rightarrow> thrown + string option" where
  "restaurantIdQueryFn user d =
     (case user of None \<Rightarrow> Inl (Err ''No user found'')
      | Some uid \<Rightarrow> Inr (restaurant_id_of (userProfile_of uid d)))"

text \<open>
  The query \<^verbatim>\<open>["staff", restaurantId]\<close>, enabled only when \<^verbatim>\<open>!!restaurantId\<close>:
  \<open>None\<close> is the disabled query, which sends nothing. \<open>failure\<close> is the \<^verbatim>\<open>error\<close>
  of the backend's answer.
\<close>

definition staffQueryFn :: "string option \<Rightarrow> thrown option \<Rightarrow> db \<Rightarrow> (thrown + obj list) option" where
  "staffQueryFn restaurantId failure d =
     (case restaurantId of None \<Rightarrow> None
      | Some rid \<Rightarrow>
          if \<not> truthy rid then None
          else (case failure of Some e \<Rightarrow> Some (Inl e)
                | None \<Rightarrow> Some (Inr (select_rows d ''staff''
                    (Columns [''id'', ''first_name'', ''last_name'', ''position''])
                    [(''restaurant_id'', Str rid)] None))))"

definition leave_payload :: "leave_form \<Rightarrow> string \<Rightarrow> payload" where
  "leave_payload st rid =
     [(''staff_id'', Str (selectedStaffId st)),
      (''restaurant_id'', Str rid),
      (''start_date'', Str (startDate st)),
      (''end_date'', Str (endDate st)),
      (''reason'', Str (reason st)),
      (''status'', Str ''pending'')]"

definition missing_information :: notification where
  "missing_information =
     Notify ''Missing information'' (Some ''Please fill in all required fields'') True"

definition handleAddLeave ::
  "string option \<Rightarrow> thrown option \<Rightarrow> leave_form \<Rightarrow> effect list \<times> leave_form" where
  "handleAddLeave restaurantId failure st =
     (if \<not> truthy (selectedStaffId st) \<or> \<not> truthy (startDate st) \<or> \<not> truthy (endDate st)
      then ([Toast missing_information], st)
      else (case restaurantId of
        None \<Rightarrow> ([Toast missing_information], st)
      | Some rid \<Rightarrow>
        if \<not> truthy rid then ([Toast missing_information], st)
        else
          let req = Insert ''staff_leaves'' [leave_payload st rid] in
          (case failure of
             Some e \<Rightarrow>
               ([Backend req, ConsoleError ''Error adding leave:'',
                 Toast (Notify ''Error'' (Some ''Failed to add leave request. Please try again.'') True)],
                st)
           | None \<Rightarrow>
               ([Backend req,
                 Toast (Notify ''Leave request submitted''
                          (Some ''The leave request has been added successfully'') False),
                 Refetch],
                st\<lparr>selectedStaffId := [], startDate := [], endDate := [], reason := [],
                   isAddLeaveOpen := False\<rparr>))))"

text \<open>The parameter type \<^verbatim>\<open>'approved' | 'rejected'\<close> of \<^verbatim>\<open>updateLeaveStatus\<close>.\<close>

datatype decision = approved | rejected

fun status_text :: "decision \<Rightarrow> string" where
  "status_text approved = ''approved''"
| "status_text rejected = ''rejected''"

definition updateLeaveStatus :: "thrown option \<Rightarrow> string \<Rightarrow> decision \<Rightarrow> effect list" where
  "updateLeaveStatus failure leaveId status =
     (let req = Update ''staff_leaves'' [(''status'', Str (status_text status))] [(''id'', Str leaveId)] in
      (case failure of
         Some e \<Rightarrow>
           [Backend req, ConsoleError ''Error updating leave status:'',
            Toast (Notify ''Error'' (Some ''Failed to update leave status. Please try again.'') True)]
       | None \<Rightarrow>
           [Backend req,
            Toast (Notify (''Leave '' @ status_text status)
                     (Some (''The leave request has been '' @ status_text status)) False),
            Refetch]))"

text \<open>
  The last cell of a table row: the two buttons, each with what its click calls, under
  \<^verbatim>\<open>leave.status === 'pending' && (...)\<close>. The identifier is \<^verbatim>\<open>leave.id\<close>, a string.
\<close>

datatype control = Button string decision

definition id_of :: "obj \<Rightarrow> string" where
  "id_of r = (case r ''id'' of Some (Str s) \<Rightarrow> s | _ \<Rightarrow> [])"

definition actionsCell :: "obj \<Rightarrow> control list" where
  "actionsCell leave =
     (if leave ''status'' = Some (Str ''pending'')
      then [Button (id_of leave) approved, Button (id_of leave) rejected]
      else [])"

section \<open>Staff roster\<close>

record roster_state =
  isAddDialogOpen :: bool
  editingStaff :: "obj option"

text \<open>
  The query \<^verbatim>\<open>["staff"]\<close> of the roster: user, profile, then the staff of the profile's
  restaurant ordered by first name.
\<close>

definition Staff_queryFn :: "string option \<Rightarrow> thrown option \<Rightarrow> db \<Rightarrow> thrown + obj list" where
  "Staff_queryFn user failure d =
     (case user of None \<Rightarrow> Inl (Err ''No user found'')
      | Some uid \<Rightarrow>
          (case restaurant_id_of (userProfile_of uid d) of
             None \<Rightarrow> Inl (Err ''No restaurant found for user'')
           | Some rid \<Rightarrow>
               if \<not> truthy rid then Inl (Err ''No restaurant found for user'')
               else (case failure of Some e \<Rightarrow> Inl e
                     | None \<Rightarrow> Inr (select_rows d ''staff'' AllColumns
                                     [(''restaurant_id'', Str rid)] (Some ''first_name'')))))"

text \<open>
  \<^verbatim>\<open>new FormData(e.currentTarget)\<close>: the named controls of the submitted form;
  \<^verbatim>\<open>get\<close> answers \<^verbatim>\<open>null\<close> for a name the form does not have.
\<close>

type_synonym form_entries = "string \<rightharpoonup> string"

definition form_get :: "form_entries \<Rightarrow> string \<Rightarrow> val" where
  "form_get fd k = (case fd k of None \<Rightarrow> Null | Some s \<Rightarrow> Str s)"

definition staffData :: "form_entries \<Rightarrow> payload" where
  "staffData fd =
     [(''first_name'', form_get fd ''firstName''),
      (''last_name'', form_get fd ''lastName''),
      (''position'', form_get fd ''position''),
      (''phone'', form_get fd ''phone''),
      (''email'', form_get fd ''email''),
      (''Shift'', form_get fd ''shift'')]"

definition something_went_wrong :: "effect list" where
  "something_went_wrong =
     [ConsoleError ''Error:'',
      Toast (Notify ''Error'' (Some ''Something went wrong. Please try again.'') True)]"

definition handleSubmit ::
  "string option \<Rightarrow> thrown option \<Rightarrow> roster_state \<Rightarrow> form_entries \<Rightarrow> db
     \<Rightarrow> effect list \<times> roster_state" where
  "handleSubmit user failure st fd d =
     (case user of None \<Rightarrow> (GetUser # something_went_wrong, st)
      | Some uid \<Rightarrow>
          (case restaurant_id_of (userProfile_of uid d) of
             None \<Rightarrow> ([GetUser, Backend (profile_request uid)] @ something_went_wrong, st)
           | Some rid \<Rightarrow>
               if \<not> truthy rid
               then ([GetUser, Backend (profile_request uid)] @ something_went_wrong, st)
               else
                 let req = (case editingStaff st of
                              Some member \<Rightarrow> Update ''staff'' (staffData fd) [(''id'', Str (id_of member))]
                            | None \<Rightarrow> Insert ''staff'' [staffData fd @ [(''restaurant_id'', Str rid)]]);
                     success = (case editingStaff st of
                              Some member \<Rightarrow> Notify ''Staff member updated successfully'' None False
                            | None \<Rightarrow> Notify ''Staff member added successfully'' None False)
                 in (case failure of
                       Some e \<Rightarrow>
                         ([GetUser, Backend (profile_request uid), Backend req] @ something_went_wrong, st)
                     | None \<Rightarrow>
                         ([GetUser, Backend (profile_request uid), Backend req, Toast success, Refetch],
                          st\<lparr>isAddDialogOpen := False, editingStaff := None\<rparr>))))"

definition handleDelete :: "thrown option \<Rightarrow> string \<Rightarrow> effect list" where
  "handleDelete failure ident =
     (let req = Delete ''staff'' [(''id'', Str ident)] in
      (case failure of
         Some e \<Rightarrow> Backend req # something_went_wrong
       | None \<Rightarrow> [Backend req, Toast (Notify ''Staff member deleted successfully'' None False), Refetch]))"

section \<open>Menu item form\<close>

record FormData =
  name :: string
  description :: string
  price :: string
  category :: string
  image_url :: string

record menu_form =
  isSubmitting :: bool
  selectedFile :: "File option"
  isUploading :: bool
  uploadedImageUrl :: string
  uploadProgress :: nat
  form :: FormData

definition initial_form :: menu_form where
  "initial_form =
     \<lparr>isSubmitting = False, selectedFile = None, isUploading = False, uploadedImageUrl = [],
      uploadProgress = 0,
      form = \<lparr>name = [], description = [], price = [], category = [], image_url = []\<rparr>\<rparr>"

definition setValue :: "string \<Rightarrow> string \<Rightarrow> FormData \<Rightarrow> FormData" where
  "setValue k v fm =
     (if k = ''name'' then fm\<lparr>name := v\<rparr>
      else if k = ''description'' then fm\<lparr>description := v\<rparr>
      else if k = ''price'' then fm\<lparr>price := v\<rparr>
      else if k = ''category'' then fm\<lparr>category := v\<rparr>
      else if k = ''image_url'' then fm\<lparr>image_url := v\<rparr>
      else fm)"

fun apply_effect :: "menu_form \<Rightarrow> effect \<Rightarrow> menu_form" where
  "apply_effect st (SetSelectedFile f) = st\<lparr>selectedFile := f\<rparr>"
| "apply_effect st (SetIsUploading b) = st\<lparr>isUploading := b\<rparr>"
| "apply_effect st (SetUploadProgress n) = st\<lparr>uploadProgress := n\<rparr>"
| "apply_effect st (SetUploadedImageUrl u) = st\<lparr>uploadedImageUrl := u\<rparr>"
| "apply_effect st (FormSetValue k v) = st\<lparr>form := setValue k v (form st)\<rparr>"
| "apply_effect st (SetIsSubmitting b) = st\<lparr>isSubmitting := b\<rparr>"
| "apply_effect st _ = st"

definition run :: "effect list \<Rightarrow> menu_form \<Rightarrow> menu_form" where
  "run es st = foldl apply_effect st es"

text \<open>
  \<^verbatim>\<open>handleFileChange\<close> reads \<^verbatim>\<open>e.target.files\<close> (no list and the empty list alike
  are \<open>[]\<close>) and looks at the first file only.
\<close>

definition handleFileChange :: "File list \<Rightarrow> effect list" where
  "handleFileChange files =
     (case files of [] \<Rightarrow> []
      | file # _ \<Rightarrow>
          if file_size file > 5 * 1024 * 1024
          then [Toast (Notify ''File too large'' (Some ''Maximum file size is 5MB'') True)]
          else if \<not> prefix ''image/'' (file_type file)
          then [Toast (Notify ''Invalid file type'' (Some ''Please select an image file'') True)]
          else [SetSelectedFile (Some file)])"

text \<open>
  What the awaited steps of \<^verbatim>\<open>uploadImage\<close> answer. The reader fires \<^verbatim>\<open>onload\<close> with
  \<^verbatim>\<open>e.target?.result\<close> or \<^verbatim>\<open>onerror\<close> with \<^verbatim>\<open>reader.error\<close>; \<^verbatim>\<open>fetch\<close> rejects or gives
  a response with \<^verbatim>\<open>ok\<close>, \<^verbatim>\<open>status\<close> and a body; \<^verbatim>\<open>response.json()\<close> rejects or gives
  \<^verbatim>\<open>data\<close>, of which the code reads \<^verbatim>\<open>status_code\<close> and \<^verbatim>\<open>image.url\<close> (\<open>None\<close> when
  \<^verbatim>\<open>data.image\<close> or the URL is missing).
\<close>

datatype read_outcome = Loaded "string option" | ReadError thrown

datatype body = JsonRejected thrown | Json int "string option"

datatype fetch_outcome = FetchRejected thrown | Response bool nat body

fun split_on :: "char \<Rightarrow> string \<Rightarrow> string list" where
  "split_on c [] = [[]]"
| "split_on c (x # xs) =
     (if x = c then [] # split_on c xs
      else (case split_on c xs of [] \<Rightarrow> [[x]] | p # ps \<Rightarrow> (x # p) # ps))"

text \<open>
  \<^verbatim>\<open>result.toString().split(',')[1]\<close>; without a comma it is \<^verbatim>\<open>undefined\<close>, which
  \<^verbatim>\<open>formData.append\<close> turns into the text "undefined".
\<close>

definition base64_of :: "string \<Rightarrow> string" where
  "base64_of s = (case split_on CHR '','' s of _ # b # _ \<Rightarrow> b | _ \<Rightarrow> ''undefined'')"

fun show_nat :: "nat \<Rightarrow> string" where
  "show_nat n =
     (if n < 10 then [char_of (48 + n)] else show_nat (n div 10) @ [char_of (48 + n mod 10)])"

definition message_or :: "string \<Rightarrow> thrown \<Rightarrow> string" where
  "message_or dflt e = (case e of Err m \<Rightarrow> m | Other \<Rightarrow> dflt)"

text \<open>The \<^verbatim>\<open>catch\<close> and the \<^verbatim>\<open>finally\<close> of \<^verbatim>\<open>uploadImage\<close>.\<close>

definition upload_failed :: "thrown \<Rightarrow> effect list" where
  "upload_failed e =
     [ConsoleError ''Error uploading image:'',
      Toast (Notify ''Upload failed'' (Some (message_or ''Failed to upload image'' e)) True)]"

definition upload_finally :: "effect list" where
  "upload_finally = [SetIsUploading False, SetUploadProgress 0]"

definition upload_request :: "string \<Rightarrow> effect" where
  "upload_request result =
     Fetch ''https://freeimage.host/api/1/upload''
       [(''key'', ''6d207e02198a847aa98d0a2a901485a5''),
        (''source'', base64_of result),
        (''format'', ''json'')]"

text \<open>
  The \<^verbatim>\<open>try\<close> block of \<^verbatim>\<open>uploadImage\<close>: what it does up to its \<^verbatim>\<open>return\<close> or to
  the first \<^verbatim>\<open>throw\<close> or rejected \<^verbatim>\<open>await\<close>, and which of the two ended it.
\<close>

definition upload_try :: "read_outcome \<Rightarrow> fetch_outcome \<Rightarrow> effect list \<times> (thrown + string)" where
  "upload_try rd ft =
     (let started = [SetIsUploading True, SetUploadProgress 10] in
      (case rd of
         ReadError e \<Rightarrow> (started, Inl e)
       | Loaded None \<Rightarrow> (started, Inl (Err ''Failed to convert file to base64''))
       | Loaded (Some result) \<Rightarrow>
           if \<not> truthy result then (started, Inl (Err ''Failed to convert file to base64''))
           else
             let sent = started @ [SetUploadProgress 30, SetUploadProgress 50, upload_request result] in
             (case ft of
                FetchRejected e \<Rightarrow> (sent, Inl e)
              | Response ok status b \<Rightarrow>
                  let answered = sent @ [SetUploadProgress 80] in
                  if \<not> ok
                  then (answered, Inl (Err (''Upload failed with status: '' @ show_nat status)))
                  else (case b of
                     JsonRejected e \<Rightarrow> (answered, Inl e)
                   | Json status_code url \<Rightarrow>
                       let parsed = answered @ [ConsoleLog ''Image upload response:'',
                                                SetUploadProgress 100] in
                       (case url of
                          None \<Rightarrow> (parsed, Inl (Err ''Invalid response from image host''))
                        | Some u \<Rightarrow>
                            if status_code = 200 \<and> truthy u
                            then (parsed @ [SetUploadedImageUrl u, FormSetValue ''image_url'' u,
                                            Toast (Notify ''Image uploaded successfully'' None False)],
                                  Inr u)
                            else (parsed, Inl (Err ''Invalid response from image host'')))))))"

text \<open>
  \<^verbatim>\<open>uploadImage\<close>: nothing without a selected file; otherwise the \<^verbatim>\<open>try\<close> block, the
  \<^verbatim>\<open>catch\<close> when it threw, and the \<^verbatim>\<open>finally\<close>. The result is the URL or \<^verbatim>\<open>null\<close>.
\<close>

definition uploadImage ::
  "File option \<Rightarrow> read_outcome \<Rightarrow> fetch_outcome \<Rightarrow> string option \<times> effect list" where
  "uploadImage file rd ft =
     (case file of None \<Rightarrow> (None, [])
      | Some f \<Rightarrow>
          (case upload_try rd ft of
             (es, Inl e) \<Rightarrow> (None, es @ upload_failed e @ upload_finally)
           | (es, Inr u) \<Rightarrow> (Some u, es @ upload_finally)))"

definition removeImage :: "effect list" where
  "removeImage = [SetSelectedFile None, SetUploadedImageUrl [], FormSetValue ''image_url'' []]"

definition menu_item :: "FormData \<Rightarrow> string \<Rightarrow> string \<Rightarrow> payload" where
  "menu_item data imageUrl rid =
     [(''name'', Str (name data)),
      (''description'', Str (description data)),
      (''price'', Float (price data)),
      (''category'', Str (category data)),
      (''image_url'', Str imageUrl),
      (''restaurant_id'', Str rid),
      (''is_available'', Bool True)]"

text \<open>The \<^verbatim>\<open>catch\<close> of \<^verbatim>\<open>onSubmit\<close>.\<close>

definition submit_failed :: "thrown \<Rightarrow> effect list" where
  "submit_failed e =
     [ConsoleError ''Error adding menu item:'',
      Toast (Notify ''Error'' (Some (message_or ''Failed to add menu item'' e)) True)]"

text \<open>
  \<^verbatim>\<open>onSubmit\<close> reads the profile query's data, the component state of the render it was
  created in, and the form values \<open>data\<close>; \<open>rd\<close> and \<open>ft\<close> answer the inline upload,
  \<open>failure\<close> is the \<^verbatim>\<open>error\<close> of the insert's answer.
\<close>

definition onSubmit ::
  "obj option \<Rightarrow> menu_form \<Rightarrow> FormData \<Rightarrow> read_outcome \<Rightarrow> fetch_outcome \<Rightarrow> thrown option
     \<Rightarrow> effect list" where
  "onSubmit userProfile st data rd ft failure =
     (let begun = [SetIsSubmitting True, ConsoleLog ''Submitting menu item:''];
          no_restaurant = begun @ submit_failed (Err ''No restaurant assigned to user'')
                                @ [SetIsSubmitting False]
      in (case restaurant_id_of userProfile of
            None \<Rightarrow> no_restaurant
          | Some rid \<Rightarrow>
              if \<not> truthy rid then no_restaurant
              else
                let (uploadedUrl, uploading) =
                      (if selectedFile st \<noteq> None \<and> \<not> truthy (uploadedImageUrl st)
                       then uploadImage (selectedFile st) rd ft else (None, []));
                    imageUrl = (case uploadedUrl of None \<Rightarrow> image_url data
                                | Some u \<Rightarrow> if truthy u then u else image_url data);
                    req = Insert ''menu_items'' [menu_item data imageUrl rid]
                in (case failure of
                      Some e \<Rightarrow>
                        begun @ uploading @ [Backend req] @ submit_failed e @ [SetIsSubmitting False]
                    | None \<Rightarrow>
                        begun @ uploading
                          @ [Backend req,
                             Toast (Notify ''Success'' (Some ''Menu item added successfully'') False),
                             OnSuccess, OnClose, SetIsSubmitting False])))"

text \<open>
  What can happen to the open form: a file is chosen, "Upload image" is clicked, the image
  is removed, the user edits one of the four visible fields (the \<open>image_url\<close> input is
  hidden), or the form is submitted with its current values.
\<close>

datatype event =
    FileChosen "File list"
  | UploadClicked read_outcome fetch_outcome
  | RemoveClicked
  | FieldEdited string string
  | Submitted "obj option" read_outcome fetch_outcome "thrown option"

fun step :: "menu_form \<Rightarrow> event \<Rightarrow> menu_form" where
  "step st (FileChosen files) = run (handleFileChange files) st"
| "step st (UploadClicked rd ft) = run (snd (uploadImage (selectedFile st) rd ft)) st"
| "step st RemoveClicked = run removeImage st"
| "step st (FieldEdited k v) =
     (if k \<in> {''name'', ''description'', ''price'', ''category''}
      then st\<lparr>form := setValue k v (form st)\<rparr> else st)"
| "step st (Submitted userProfile rd ft failure) =
     run (onSubmit userProfile st (form st) rd ft failure) st"

definition after :: "event list \<Rightarrow> menu_form" where
  "after evs = foldl step initial_form evs"

fun progress_trace :: "effect list \<Rightarrow> nat list" where
  "progress_trace [] = []"
| "progress_trace (SetUploadProgress n # es) = n # progress_trace es"
| "progress_trace (_ # es) = progress_trace es"

section \<open>Dates of a leave\<close>

text \<open>
  \<^verbatim>\<open>new Date(s)\<close> for the date-only form \<^verbatim>\<open>YYYY-MM-DD\<close>, which is what the date inputs
  write and a date column answers: midnight UTC of that day, in milliseconds since
  1970-01-01. Any other text is outside the model (\<open>None\<close>).
\<close>

definition digits :: "string \<Rightarrow> nat option" where
  "digits s =
     (if s \<noteq> [] \<and> list_all (\<lambda>c. CHR ''0'' \<le> c \<and> c \<le> CHR ''9'') s
      then Some (foldl (\<lambda>n c. 10 * n + (of_char c - 48)) 0 s) else None)"

definition leap_year :: "int \<Rightarrow> bool" where
  "leap_year y = (y mod 4 = 0 \<and> (y mod 100 \<noteq> 0 \<or> y mod 400 = 0))"

definition days_in_month :: "int \<Rightarrow> int \<Rightarrow> int" where
  "days_in_month y m =
     (if m = 2 then (if leap_year y then 29 else 28)
      else if m = 4 \<or> m = 6 \<or> m = 9 \<or> m = 11 then 30 else 31)"

definition valid_date :: "int \<times> int \<times> int \<Rightarrow> bool" where
  "valid_date dt = (case dt of (y, m, d) \<Rightarrow> 1 \<le> m \<and> m \<le> 12 \<and> 1 \<le> d \<and> d \<le> days_in_month y m)"

definition parse_date :: "string \<Rightarrow> (int \<times> int \<times> int) option" where
  "parse_date s =
     (if length s = 10 \<and> s ! 4 = CHR ''-'' \<and> s ! 7 = CHR ''-''
      then (case (digits (take 4 s), digits (take 2 (drop 5 s)), digits (drop 8 s)) of
              (Some y, Some m, Some d) \<Rightarrow>
                if valid_date (int y, int m, int d) then Some (int y, int m, int d) else None
            | _ \<Rightarrow> None)
      else None)"

text \<open>The number of the day in the proleptic Gregorian calendar, 1970-01-01 being day 0.\<close>

definition day_number :: "int \<times> int \<times> int \<Rightarrow> int" where
  "day_number dt =
     (case dt of (y, m, d) \<Rightarrow>
        let y' = (if m \<le> 2 then y - 1 else y);
            era = y' div 400;
            yoe = y' - era * 400;
            doy = (153 * (if m > 2 then m - 3 else m + 9) + 2) div 5 + d - 1;
            doe = yoe * 365 + yoe div 4 - yoe div 100 + doy
        in era * 146097 + doe - 719468)"

definition millisecondsInDay :: int where
  "millisecondsInDay = 86400000"

definition new_Date :: "string \<Rightarrow> int option" where
  "new_Date s = map_option (\<lambda>dt. day_number dt * millisecondsInDay) (parse_date s)"

text \<open>
  The host's time zone, as far as the code can see it: the offset in milliseconds that,
  added to an instant, gives the local wall clock at that instant.
\<close>

type_synonym zone = "int \<Rightarrow> int"

text \<open>
  What \<^verbatim>\<open>getFullYear\<close>, \<^verbatim>\<open>getMonth\<close>, \<^verbatim>\<open>getDate\<close> and \<^verbatim>\<open>getHours\<close> to
  \<^verbatim>\<open>getMilliseconds\<close> read from a \<^verbatim>\<open>Date\<close>: the local calendar day, here as its day
  number, and the milliseconds since local midnight.
\<close>

definition wall_clock :: "zone \<Rightarrow> int \<Rightarrow> int \<times> int" where
  "wall_clock z t = ((t + z t) div millisecondsInDay, (t + z t) mod millisecondsInDay)"

text \<open>
  \<^verbatim>\<open>differenceInDays\<close> belongs to the date library \<^verbatim>\<open>date-fns\<close>, which the sources
  import and do not contain. It is modelled after the library's own code:
  \<^verbatim>\<open>
  function differenceInDays(laterDate, earlierDate) {
    const sign = compareLocalAsc(laterDate, earlierDate);
    const difference = Math.abs(differenceInCalendarDays(laterDate, earlierDate));
    laterDate.setDate(laterDate.getDate() - sign * difference);
    const isLastDayNotFull = Number(compareLocalAsc(laterDate, earlierDate) === -sign);
    const result = sign * (difference - isLastDayNotFull);
    return result === 0 ? 0 : result;
  }
  \<close>
  \<^verbatim>\<open>compareLocalAsc\<close> takes the first difference among year, month, date, hours, minutes,
  seconds and milliseconds, all local, and answers its sign: the order of the wall
  clocks. \<^verbatim>\<open>differenceInCalendarDays\<close> is the difference of the local calendar days.
  \<^verbatim>\<open>setDate\<close> moves the calendar day and keeps the time of day (a time of day that the
  zone skips on the new day is not modelled).
\<close>

definition compareLocalAsc :: "int \<times> int \<Rightarrow> int \<times> int \<Rightarrow> int" where
  "compareLocalAsc l r =
     (if fst l < fst r \<or> (fst l = fst r \<and> snd l < snd r) then - 1
      else if fst l > fst r \<or> (fst l = fst r \<and> snd l > snd r) then 1
      else 0)"

definition differenceInCalendarDays :: "zone \<Rightarrow> int \<Rightarrow> int \<Rightarrow> int" where
  "differenceInCalendarDays z laterDate earlierDate =
     fst (wall_clock z laterDate) - fst (wall_clock z earlierDate)"

definition differenceInDays :: "zone \<Rightarrow> int \<Rightarrow> int \<Rightarrow> int" where
  "differenceInDays z laterDate earlierDate =
     (let sign = compareLocalAsc (wall_clock z laterDate) (wall_clock z earlierDate);
          difference = abs (differenceInCalendarDays z laterDate earlierDate);
          moved = (fst (wall_clock z laterDate) - sign * difference, snd (wall_clock z laterDate));
          isLastDayNotFull = (if compareLocalAsc moved (wall_clock z earlierDate) = - sign
                              then 1 else 0)
      in sign * (difference - isLastDayNotFull))"

text \<open>
  The badge of a row, in a browser whose time zone is \<open>z\<close>:
  \<^verbatim>\<open>differenceInDays(new Date(leave.end_date), new Date(leave.start_date)) + 1\<close>.
\<close>

definition dayCount :: "zone \<Rightarrow> obj \<Rightarrow> int option" where
  "dayCount z leave =
     (case (leave ''end_date'', leave ''start_date'') of
        (Some (Str e), Some (Str s)) \<Rightarrow>
          (case (new_Date e, new_Date s) of
             (Some laterDate, Some earlierDate) \<Rightarrow> Some (differenceInDays z laterDate earlierDate + 1)
           | _ \<Rightarrow> None)
      | _ \<Rightarrow> None)"

text \<open>
  Two zones: UTC, and New York in 2024, on daylight time (four hours behind UTC) from
  2024-03-10 07:00 UTC until 2024-11-03 06:00 UTC and on standard time (five hours
  behind) before and after.
\<close>

definition utc :: zone where
  "utc t = 0"

definition new_york :: zone where
  "new_york t = (if 1710054000000 \<le> t \<and> t < 1730613600000 then - 14400000 else - 18000000)"

text \<open>The days of the years before year \<open>y\<close>, counted from year 0.\<close>

definition days_before_year :: "int \<Rightarrow> int" where
  "days_before_year y = 365 * y + y div 4 - y div 100 + y div 400"

text \<open>The day after a date.\<close>

definition next_day :: "int \<times> int \<times> int \<Rightarrow> int \<times> int \<times> int" where
  "next_day dt =
     (case dt of (y, m, d) \<Rightarrow>
        if d < days_in_month y m then (y, m, d + 1)
        else if m < 12 then (y, m + 1, 1)
        else (y + 1, 1, 1))"

section \<open>Example data\<close>

definition example_leave_form :: leave_form where
  "example_leave_form =
     \<lparr>isAddLeaveOpen = True, selectedStaffId = ''s1'', startDate = ''2024-01-01'',
      endDate = ''2024-01-03'', reason = ''trip''\<rparr>"

definition example_leave :: obj where
  "example_leave =
     [''id'' \<mapsto> Str ''l1'', ''restaurant_id'' \<mapsto> Str ''r2'', ''status'' \<mapsto> Str ''pending'',
      ''start_date'' \<mapsto> Str ''2024-01-01'', ''end_date'' \<mapsto> Str ''2024-01-03'']"

definition zoe :: obj where
  "zoe = [''id'' \<mapsto> Str ''s1'', ''first_name'' \<mapsto> Str ''Zoe'', ''restaurant_id'' \<mapsto> Str ''r1'']"

definition adam :: obj where
  "adam = [''id'' \<mapsto> Str ''s2'', ''first_name'' \<mapsto> Str ''Adam'', ''restaurant_id'' \<mapsto> Str ''r2'']"

definition bea :: obj where
  "bea = [''id'' \<mapsto> Str ''s3'', ''first_name'' \<mapsto> Str ''Bea'', ''restaurant_id'' \<mapsto> Str ''r1'']"

definition example_db :: db where
  "example_db t =
     (if t = ''staff_leaves'' then [example_leave]
      else if t = ''profiles'' then [[''id'' \<mapsto> Str ''u1'', ''restaurant_id'' \<mapsto> Str ''r1'']]
      else if t = ''staff'' then [zoe, adam, bea]
      else [])"

definition png :: File where
  "png = \<lparr>file_name = ''dish.png'', file_size = 2048, file_type = ''image/png''\<rparr>"

definition huge :: File where
  "huge = \<lparr>file_name = ''dish.png'', file_size = 5242881, file_type = ''image/png''\<rparr>"

definition chosen :: menu_form where
  "chosen = after [FileChosen [png]]"

definition editing_zoe :: roster_state where
  "editing_zoe = \<lparr>isAddDialogOpen = True, editingStaff = Some zoe\<rparr>"

definition zoe_entries :: form_entries where
  "zoe_entries =
     [''firstName'' \<mapsto> ''Zoey'', ''lastName'' \<mapsto> ''Ng'', ''position'' \<mapsto> ''chef'',
      ''phone'' \<mapsto> [], ''email'' \<mapsto> [], ''shift'' \<mapsto> ''night'']"

definition memo :: File where
  "memo = \<lparr>file_name = ''notes.txt'', file_size = 12, file_type = ''text/plain''\<rparr>"

definition owner :: obj where
  "owner = [''restaurant_id'' \<mapsto> Str ''r1'']"

definition good_read :: read_outcome where
  "good_read = Loaded (Some ''data:image/png;base64,iVBORw0KGgo='')"

definition good_answer :: fetch_outcome where
  "good_answer = Response True 200 (Json 200 (Some ''https://iili.io/dish.png''))"

definition november_leave :: obj where
  "november_leave =
     [''id'' \<mapsto> Str ''l2'', ''restaurant_id'' \<mapsto> Str ''r1'', ''status'' \<mapsto> Str ''approved'',
      ''start_date'' \<mapsto> Str ''2024-11-02'', ''end_date'' \<mapsto> Str ''2024-11-04'']"

definition drafted :: menu_form where
  "drafted = after [FieldEdited ''name'' ''Dal'', FieldEdited ''price'' ''12.50'', FileChosen [png]]"

definition dal_row :: payload where
  "dal_row =
     [(''name'', Str ''Dal''), (''description'', Str []), (''price'', Float ''12.50''),
      (''category'', Str []), (''image_url'', Str []), (''restaurant_id'', Str ''r1''),
      (''is_available'', Bool True)]"

section \<open>Auxiliary facts\<close>

lemma requests_append: "requests (xs @ ys) = requests xs @ requests ys"
  by (induction xs rule: requests.induct) simp_all

lemma progress_trace_append: "progress_trace (xs @ ys) = progress_trace xs @ progress_trace ys"
  by (induction xs rule: progress_trace.induct) simp_all

lemma run_append: "run (xs @ ys) st = run ys (run xs st)"
  by (simp add: run_def)

lemma run_Cons: "run (e # es) st = run es (apply_effect st e)"
  by (simp add: run_def)

lemma run_Nil: "run [] st = st"
  by (simp add: run_def)

lemma set_select_rows:
  "set (select_rows d t cs fs ord) = project cs ` {r \<in> set (d t). matches fs r}"
  by (cases ord) (auto simp: select_rows_def ordered_def)

lemma matches_single: "matches [(c, v)] r = (r c = Some v)"
  by (simp add: matches_def)

lemma update_row_frame: "c \<notin> fst ` set vs \<Longrightarrow> update_row vs fs r c = r c"
  by (simp add: update_row_def map_add_def map_of_eq_None_iff[THEN iffD2])

lemma status_text_not_pending: "status_text s \<noteq> ''pending''"
  by (cases s) simp_all

lemma updated_status:
  assumes "l \<in> set (exec (Update t [(''status'', v)] [(''id'', i)]) d t)" and "l ''id'' = Some i"
  shows "l ''status'' = Some v"
proof -
  from assms(1) obtain r where r: "r \<in> set (d t)" and l: "l = update_row [(''status'', v)] [(''id'', i)] r"
    by auto
  show ?thesis
  proof (cases "matches [(''id'', i)] r")
    case True
    with l show ?thesis by (simp add: update_row_def)
  next
    case False
    with l have "l = r" by (simp add: update_row_def)
    with False assms(2) show ?thesis by (simp add: matches_single)
  qed
qed

lemma handleSubmit_requests:
  assumes "editingStaff st = Some member"
  shows "\<forall>req \<in> set (requests (fst (handleSubmit user failure st fd d))).
           (\<exists>uid. req = profile_request uid)
           \<or> req = Update ''staff'' (staffData fd) [(''id'', Str (id_of member))]"
  using assms
  by (auto simp: handleSubmit_def something_went_wrong_def Let_def split: option.splits)

lemma upload_try_requests: "requests (fst (upload_try rd ft)) = []"
  by (simp add: upload_try_def upload_request_def Let_def
        split: read_outcome.split fetch_outcome.split body.split option.split)

lemma upload_try_progress:
  "progress_trace (fst (upload_try rd ft)) \<in>
     {[10], [10, 30, 50], [10, 30, 50, 80], [10, 30, 50, 80, 100]}
   \<and> (\<forall>u. snd (upload_try rd ft) = Inr u \<longrightarrow>
         progress_trace (fst (upload_try rd ft)) = [10, 30, 50, 80, 100])"
  by (simp add: upload_try_def upload_request_def Let_def
        split: read_outcome.split fetch_outcome.split body.split option.split)

lemma upload_try_keeps_url_in_step:
  "image_url (form st) = uploadedImageUrl st \<Longrightarrow>
   image_url (form (run (fst (upload_try rd ft)) st)) = uploadedImageUrl (run (fst (upload_try rd ft)) st)"
  by (simp add: upload_try_def upload_request_def run_def setValue_def Let_def
        split: read_outcome.split fetch_outcome.split body.split option.split)

lemma uploadImage_Some:
  "uploadImage (Some f) rd ft =
     (case snd (upload_try rd ft) of
        Inl e \<Rightarrow> (None, fst (upload_try rd ft) @ upload_failed e @ upload_finally)
      | Inr u \<Rightarrow> (Some u, fst (upload_try rd ft) @ upload_finally))"
  by (cases "upload_try rd ft") (simp add: uploadImage_def split: sum.split)

lemma uploadImage_requests: "requests (snd (uploadImage fl rd ft)) = []"
proof (cases fl)
  case None
  then show ?thesis by (simp add: uploadImage_def)
next
  case (Some f)
  with upload_try_requests [of rd ft] show ?thesis
    by (simp add: uploadImage_Some requests_append upload_failed_def upload_finally_def
          split: sum.split)
qed

lemma uploadImage_keeps_url_in_step:
  assumes "image_url (form st) = uploadedImageUrl st"
  shows "image_url (form (run (snd (uploadImage fl rd ft)) st))
           = uploadedImageUrl (run (snd (uploadImage fl rd ft)) st)"
proof (cases fl)
  case None
  with assms show ?thesis by (simp add: uploadImage_def run_Nil)
next
  case (Some f)
  from upload_try_keeps_url_in_step [OF assms, of rd ft] Some show ?thesis
    by (simp add: uploadImage_Some run_append run_Cons run_Nil upload_failed_def upload_finally_def
          split: sum.split)
qed

lemma onSubmit_keeps_url_in_step:
  assumes "image_url (form st) = uploadedImageUrl st"
  shows "image_url (form (run (onSubmit userProfile st data rd ft failure) st))
           = uploadedImageUrl (run (onSubmit userProfile st data rd ft failure) st)"
proof -
  let ?st = "st\<lparr>isSubmitting := True\<rparr>"
  have "image_url (form ?st) = uploadedImageUrl ?st" using assms by simp
  from uploadImage_keeps_url_in_step [OF this]
  have up: "image_url (form (run (snd (uploadImage fl rd ft)) ?st))
           = uploadedImageUrl (run (snd (uploadImage fl rd ft)) ?st)" for fl .
  show ?thesis
  proof (cases "uploadImage (selectedFile st) rd ft")
    case (Pair res es)
    with up [of "selectedFile st"] assms show ?thesis
      by (simp add: onSubmit_def submit_failed_def run_append run_Cons run_Nil Let_def
          split: option.split)
  qed
qed

lemma step_keeps_url_in_step:
  assumes "image_url (form st) = uploadedImageUrl st"
  shows "image_url (form (step st ev)) = uploadedImageUrl (step st ev)"
proof (cases ev)
  case (FileChosen files)
  with assms show ?thesis
    by (simp add: handleFileChange_def run_Cons run_Nil split: list.split)
next
  case (UploadClicked rd ft)
  with assms show ?thesis by (simp add: uploadImage_keeps_url_in_step)
next
  case RemoveClicked
  then show ?thesis by (simp add: removeImage_def run_Cons run_Nil setValue_def)
next
  case (FieldEdited k v)
  with assms show ?thesis by (auto simp: setValue_def)
next
  case (Submitted userProfile rd ft failure)
  with assms show ?thesis by (simp add: onSubmit_keeps_url_in_step)
qed

lemma after_url_in_step: "image_url (form (after evs)) = uploadedImageUrl (after evs)"
proof (induction evs rule: rev_induct)
  case Nil
  show ?case by (simp add: after_def initial_form_def)
next
  case (snoc ev evs)
  then show ?case by (simp add: after_def step_keeps_url_in_step)
qed

lemma upload_failed_toast:
  assumes "fst (uploadImage (Some f) rd ft) = None"
  shows "\<exists>msg. Toast (Notify ''Upload failed'' (Some msg) True) \<in> set (snd (uploadImage (Some f) rd ft))"
proof (cases "snd (upload_try rd ft)")
  case (Inl e)
  then have "uploadImage (Some f) rd ft = (None, fst (upload_try rd ft) @ upload_failed e @ upload_finally)"
    by (simp add: uploadImage_Some)
  then have toast: "Toast (Notify ''Upload failed'' (Some (message_or ''Failed to upload image'' e)) True)
               \<in> set (snd (uploadImage (Some f) rd ft))"
    by (simp add: upload_failed_def)
  show ?thesis
    by (rule exI [where x = "message_or ''Failed to upload image'' e"]) (rule toast)
next
  case (Inr u)
  then have "fst (uploadImage (Some f) rd ft) = Some u"
    by (simp add: uploadImage_Some)
  with assms show ?thesis by simp
qed

lemma upload_finally_state:
  "uploadProgress (run (es @ upload_finally) st) = 0 \<and> \<not> isUploading (run (es @ upload_finally) st)"
  by (simp add: run_append run_Cons run_Nil upload_finally_def)

lemma millisecondsInDay_pos: "0 < millisecondsInDay"
  by (simp add: millisecondsInDay_def)

lemma wall_clock_midnight:
  "wall_clock z (a * millisecondsInDay) =
     (a + z (a * millisecondsInDay) div millisecondsInDay,
      z (a * millisecondsInDay) mod millisecondsInDay)"
  using millisecondsInDay_pos by (simp add: wall_clock_def)

lemma compareLocalAsc_same_time:
  "compareLocalAsc (a, t) (b, t) = (if a < b then - 1 else if b < a then 1 else 0)"
  by (simp add: compareLocalAsc_def)

lemma differenceInDays_same_offset:
  assumes "z (a * millisecondsInDay) = z (b * millisecondsInDay)"
  shows "differenceInDays z (a * millisecondsInDay) (b * millisecondsInDay) = a - b"
proof -
  define q where "q = z (b * millisecondsInDay) div millisecondsInDay"
  define t where "t = z (b * millisecondsInDay) mod millisecondsInDay"
  have l: "wall_clock z (a * millisecondsInDay) = (a + q, t)"
    and r: "wall_clock z (b * millisecondsInDay) = (b + q, t)"
    by (simp_all add: wall_clock_midnight assms q_def t_def)
  consider (less) "a < b" | (same) "a = b" | (more) "b < a" by linarith
  then show ?thesis
  proof cases
    case less
    then show ?thesis
      by (simp add: differenceInDays_def differenceInCalendarDays_def l r compareLocalAsc_same_time)
  next
    case same
    then show ?thesis
      by (simp add: differenceInDays_def differenceInCalendarDays_def l r compareLocalAsc_same_time)
  next
    case more
    then show ?thesis
      by (simp add: differenceInDays_def differenceInCalendarDays_def l r compareLocalAsc_same_time)
  qed
qed

lemma dayCount_same_offset:
  assumes "leave ''start_date'' = Some (Str s)" and "leave ''end_date'' = Some (Str e)"
    and "parse_date s = Some ds" and "parse_date e = Some de"
    and "z (day_number de * millisecondsInDay) = z (day_number ds * millisecondsInDay)"
  shows "dayCount z leave = Some (day_number de - day_number ds + 1)"
  using assms by (simp add: dayCount_def new_Date_def differenceInDays_same_offset)

lemma div_pred:
  fixes y k :: int
  assumes "0 < k"
  shows "(y - 1) div k = (if y mod k = 0 then y div k - 1 else y div k)"
proof (cases "y mod k = 0")
  case True
  have "y - 1 = k * (y div k - 1) + (k - 1)"
    using True by (simp add: algebra_simps mod_eq_0_iff_dvd)
  from int_div_pos_eq [OF this] assms True show ?thesis by simp
next
  case False
  have r: "0 \<le> y mod k - 1" "y mod k - 1 < k"
    using assms False pos_mod_sign [of k y] pos_mod_bound [of k y] by linarith+
  have "y - 1 = k * (y div k) + (y mod k - 1)"
    by (simp add: algebra_simps)
  from int_div_pos_eq [OF this r] False show ?thesis by simp
qed

lemma div_of_rest:
  fixes y :: int
  shows "(y - (y div 400) * 400) div 4 = y div 4 - 100 * (y div 400)"
    and "(y - (y div 400) * 400) div 100 = y div 100 - 4 * (y div 400)"
proof -
  have "y div 4 = ((y - (y div 400) * 400) + (100 * (y div 400)) * 4) div 4"
    by (simp add: algebra_simps)
  also have "\<dots> = (y - (y div 400) * 400) div 4 + 100 * (y div 400)"
    by (simp only: div_mult_self1 [of 4] div_mult_self2 div_mult_self3 div_mult_self4)
  finally show "(y - (y div 400) * 400) div 4 = y div 4 - 100 * (y div 400)" by simp
  have "y div 100 = ((y - (y div 400) * 400) + (4 * (y div 400)) * 100) div 100"
    by (simp add: algebra_simps)
  also have "\<dots> = (y - (y div 400) * 400) div 100 + 4 * (y div 400)"
    by (simp only: div_mult_self1 [of 100] div_mult_self2 div_mult_self3 div_mult_self4)
  finally show "(y - (y div 400) * 400) div 100 = y div 100 - 4 * (y div 400)" by simp
qed

lemma era_form:
  "(y div 400) * 146097
     + ((y - (y div 400) * 400) * 365 + (y - (y div 400) * 400) div 4
          - (y - (y div 400) * 400) div 100 + doy) - 719468
   = days_before_year y + doy - 719468"
  by (simp only: div_of_rest days_before_year_def) (simp add: algebra_simps)

lemma day_number_alt:
  "day_number (y, m, d) =
     days_before_year (if m \<le> 2 then y - 1 else y)
       + ((153 * (if m > 2 then m - 3 else m + 9) + 2) div 5 + d - 1) - 719468"
  by (simp only: day_number_def Let_def prod.case era_form)

lemma multiples: "(y::int) mod 400 = 0 \<Longrightarrow> y mod 100 = 0" "(y::int) mod 100 = 0 \<Longrightarrow> y mod 4 = 0"
proof -
  have a: "(100::int) dvd 400" and b: "(4::int) dvd 100" by simp_all
  show "y mod 400 = 0 \<Longrightarrow> y mod 100 = 0"
    using dvd_trans [OF a, of y] by (simp only: mod_eq_0_iff_dvd)
  show "y mod 100 = 0 \<Longrightarrow> y mod 4 = 0"
    using dvd_trans [OF b, of y] by (simp only: mod_eq_0_iff_dvd)
qed

lemma days_before_year_step:
  "days_before_year y = days_before_year (y - 1) + (if leap_year y then 366 else 365)"
proof -
  have p4: "(y - 1) div 4 = (if y mod 4 = 0 then y div 4 - 1 else y div 4)"
    by (rule div_pred) simp
  have p100: "(y - 1) div 100 = (if y mod 100 = 0 then y div 100 - 1 else y div 100)"
    by (rule div_pred) simp
  have p400: "(y - 1) div 400 = (if y mod 400 = 0 then y div 400 - 1 else y div 400)"
    by (rule div_pred) simp
  have eq: "days_before_year y - days_before_year (y - 1)
      = 365 + (y div 4 - (y - 1) div 4) - (y div 100 - (y - 1) div 100) + (y div 400 - (y - 1) div 400)"
    by (simp add: days_before_year_def)
  consider (a) "y mod 4 \<noteq> 0" "y mod 100 \<noteq> 0" "y mod 400 \<noteq> 0"
    | (b) "y mod 4 = 0" "y mod 100 \<noteq> 0" "y mod 400 \<noteq> 0"
    | (c) "y mod 4 = 0" "y mod 100 = 0" "y mod 400 \<noteq> 0"
    | (d) "y mod 4 = 0" "y mod 100 = 0" "y mod 400 = 0"
    using multiples [of y]
    by (cases "y mod 4 = 0"; cases "y mod 100 = 0"; cases "y mod 400 = 0"; simp)
  then have "days_before_year y - days_before_year (y - 1) = (if leap_year y then 366 else 365)"
  proof cases
    case a then show ?thesis unfolding eq p4 p100 p400 leap_year_def by simp
  next
    case b then show ?thesis unfolding eq p4 p100 p400 leap_year_def by simp
  next
    case c then show ?thesis unfolding eq p4 p100 p400 leap_year_def by simp
  next
    case d then show ?thesis unfolding eq p4 p100 p400 leap_year_def by simp
  qed
  then show ?thesis by simp
qed

lemma day_number_next_day:
  assumes "valid_date (y, m, d)"
  shows "day_number (next_day (y, m, d)) = day_number (y, m, d) + 1"
proof (cases "d < days_in_month y m")
  case True
  then show ?thesis by (simp add: next_day_def day_number_alt)
next
  case False
  with assms have last: "d = days_in_month y m"
    by (simp add: valid_date_def)
  from assms have "1 \<le> m \<and> m \<le> 12"
    by (simp add: valid_date_def)
  then have "m = 1 \<or> m = 2 \<or> m = 3 \<or> m = 4 \<or> m = 5 \<or> m = 6 \<or> m = 7 \<or> m = 8
      \<or> m = 9 \<or> m = 10 \<or> m = 11 \<or> m = 12"
    by arith
  then show ?thesis
    using days_before_year_step [of y]
    by (elim disjE) (simp_all add: last next_day_def day_number_alt days_in_month_def)
qed

lemma valid_next_day:
  assumes "valid_date (y, m, d)"
  shows "valid_date (next_day (y, m, d))"
proof -
  have "1 \<le> days_in_month y' m'" for y' m'
    by (simp add: days_in_month_def)
  with assms show ?thesis
    by (auto simp: valid_date_def next_day_def)
qed

lemma day_number_after:
  "valid_date dt \<Longrightarrow> day_number ((next_day ^^ n) dt) = day_number dt + int n
     \<and> valid_date ((next_day ^^ n) dt)"
proof (induction n)
  case 0
  then show ?case by simp
next
  case (Suc n)
  obtain y m d where dt: "(next_day ^^ n) dt = (y, m, d)"
    by (cases "(next_day ^^ n) dt")
  with Suc show ?case
    using day_number_next_day [of y m d] valid_next_day [of y m d] by simp
qed


lemma parse_date_valid: "parse_date s = Some dt \<Longrightarrow> valid_date dt"
  by (auto simp: parse_date_def split: if_splits option.splits)

lemma dayCount_nth_day:
  assumes "leave ''start_date'' = Some (Str s)" and "leave ''end_date'' = Some (Str e)"
    and "parse_date s = Some ds" and "parse_date e = Some de"
    and "z (day_number de * millisecondsInDay) = z (day_number ds * millisecondsInDay)"
    and "(next_day ^^ n) ds = de"
  shows "dayCount z leave = Some (int n + 1)"
proof -
  from assms(3) have "valid_date ds" by (rule parse_date_valid)
  then have "day_number ((next_day ^^ n) ds) = day_number ds + int n"
    by (simp add: day_number_after)
  with assms(6) have "day_number de - day_number ds + 1 = int n + 1" by simp
  with dayCount_same_offset [OF assms(1-5)] show ?thesis by simp
qed

lemma dayCount_january: "dayCount z example_leave = Some 3" if "\<And>t. z t = c" for z c
proof -
  have s: "example_leave ''start_date'' = Some (Str ''2024-01-01'')"
    and e: "example_leave ''end_date'' = Some (Str ''2024-01-03'')"
    by (simp_all add: example_leave_def)
  have ds: "parse_date ''2024-01-01'' = Some (2024, 1, 1)"
    and de: "parse_date ''2024-01-03'' = Some (2024, 1, 3)"
    by code_simp+
  have two: "(next_day ^^ 2) (2024, 1, 1) = (2024, 1, 3)"
    by (simp add: numeral_2_eq_2 next_day_def days_in_month_def)
  from dayCount_nth_day [OF s e ds de _ two, of z] that show ?thesis by simp
qed

lemma upload_fails_read: "fst (uploadImage (Some f) (ReadError e) ft) = None"
  by (simp add: uploadImage_def upload_try_def)

lemma upload_fails_no_result:
  "\<not> truthy_opt r \<Longrightarrow> fst (uploadImage (Some f) (Loaded r) ft) = None"
  by (cases r) (simp_all add: uploadImage_def upload_try_def truthy_opt_def)

lemma upload_fails_fetch: "fst (uploadImage (Some f) rd (FetchRejected e)) = None"
  by (simp add: uploadImage_def upload_try_def Let_def split: read_outcome.split option.split)

lemma upload_fails_status: "fst (uploadImage (Some f) rd (Response False status b)) = None"
  by (simp add: uploadImage_def upload_try_def Let_def split: read_outcome.split option.split)

lemma upload_fails_body:
  "fst (uploadImage (Some f) rd (Response ok status (JsonRejected e))) = None"
  by (simp add: uploadImage_def upload_try_def Let_def split: read_outcome.split option.split)

lemma upload_fails_answer:
  "code \<noteq> 200 \<or> \<not> truthy_opt url \<Longrightarrow>
   fst (uploadImage (Some f) rd (Response ok status (Json code url))) = None"
  by (cases url)
     (auto simp: uploadImage_def upload_try_def truthy_opt_def Let_def
        split: read_outcome.split option.split)

section \<open>Properties of the leave manager\<close>

text \<open>
  C1. Whatever the form holds (staff, dates, reason) and whatever the backend answers,
  every request that \<open>handleAddLeave\<close> sends is one insert into \<open>staff_leaves\<close> of a
  single record whose \<open>status\<close> is \<open>pending\<close>.
\<close>

theorem handleAddLeave_inserts_pending:
  "\<forall>r \<in> set (requests (fst (handleAddLeave restaurantId failure st))).
     \<exists>row. r = Insert ''staff_leaves'' [row] \<and> map_of row ''status'' = Some (Str ''pending'')"
  by (cases failure; cases restaurantId)
     (simp_all add: handleAddLeave_def leave_payload_def Let_def)

theorem handleAddLeave_inserts_pending_witness:
  "requests (fst (handleAddLeave (Some ''r1'') None example_leave_form))
     = [Insert ''staff_leaves'' [leave_payload example_leave_form ''r1'']]
   \<and> map_of (leave_payload example_leave_form ''r1'') ''status'' = Some (Str ''pending'')"
proof -
  have reqs: "requests (fst (handleAddLeave (Some ''r1'') None example_leave_form))
     = [Insert ''staff_leaves'' [leave_payload example_leave_form ''r1'']]"
    by (simp add: handleAddLeave_def truthy_def example_leave_form_def)
  from handleAddLeave_inserts_pending [of "Some ''r1''" None example_leave_form] reqs
  have "\<exists>row. Insert ''staff_leaves'' [leave_payload example_leave_form ''r1'']
                 = Insert ''staff_leaves'' [row]
              \<and> map_of row ''status'' = Some (Str ''pending'')"
    by simp
  then have "map_of (leave_payload example_leave_form ''r1'') ''status'' = Some (Str ''pending'')"
    by (elim exE conjE) simp
  with reqs show ?thesis by simp
qed

text \<open>
  C8. A row of the leave table shows the approve and the reject button exactly when the
  record's \<open>status\<close> is \<open>pending\<close>. Once the update that \<open>updateLeaveStatus\<close> sends has
  been carried out, every row of \<open>staff_leaves\<close> with that identifier shows neither.
\<close>

theorem actions_iff_pending:
  "(leave ''status'' = Some (Str ''pending'') \<longrightarrow>
      actionsCell leave = [Button (id_of leave) approved, Button (id_of leave) rejected])
   \<and> (leave ''status'' \<noteq> Some (Str ''pending'') \<longrightarrow> actionsCell leave = [])
   \<and> (\<forall>req \<in> set (requests (updateLeaveStatus failure leaveId status)).
        \<forall>l \<in> set (exec req d ''staff_leaves''). l ''id'' = Some (Str leaveId) \<longrightarrow> actionsCell l = [])"
proof (intro conjI ballI impI)
  fix req l
  assume "req \<in> set (requests (updateLeaveStatus failure leaveId status))"
  then have req: "req = Update ''staff_leaves'' [(''status'', Str (status_text status))] [(''id'', Str leaveId)]"
    by (cases failure) (simp_all add: updateLeaveStatus_def)
  assume "l \<in> set (exec req d ''staff_leaves'')" and "l ''id'' = Some (Str leaveId)"
  with req have "l ''status'' = Some (Str (status_text status))"
    by (simp only: updated_status)
  then show "actionsCell l = []"
    by (simp add: actionsCell_def status_text_not_pending)
qed (simp_all add: actionsCell_def)

theorem actions_iff_pending_witness:
  "actionsCell example_leave = [Button ''l1'' approved, Button ''l1'' rejected]
   \<and> map actionsCell (exec (Update ''staff_leaves'' [(''status'', Str ''approved'')] [(''id'', Str ''l1'')])
        example_db ''staff_leaves'') = [[]]"
proof -
  let ?req = "Update ''staff_leaves'' [(''status'', Str ''approved'')] [(''id'', Str ''l1'')]"
  let ?l = "update_row [(''status'', Str ''approved'')] [(''id'', Str ''l1'')] example_leave"
  have rows: "exec ?req example_db ''staff_leaves'' = [?l]"
    by (simp add: example_db_def)
  have req: "?req \<in> set (requests (updateLeaveStatus None ''l1'' approved))"
    by (simp add: updateLeaveStatus_def)
  have ident: "?l ''id'' = Some (Str ''l1'')"
    by (simp add: update_row_def matches_def example_leave_def)
  have pending: "example_leave ''status'' = Some (Str ''pending'')"
    by (simp add: example_leave_def)
  have "actionsCell ?l = []"
    using actions_iff_pending [of example_leave None "''l1''" approved example_db] req rows ident
    by simp
  moreover have "actionsCell example_leave = [Button ''l1'' approved, Button ''l1'' rejected]"
    using actions_iff_pending [of example_leave None "''l1''" approved example_db] pending
    by (simp add: id_of_def example_leave_def)
  ultimately show ?thesis using rows by simp
qed

text \<open>
  C10. \<open>updateLeaveStatus\<close> and \<open>handleDelete\<close> each send one request, whose only
  filter is equality on \<open>id\<close> with the argument; a row is selected by that filter
  exactly when its \<open>id\<close> is the argument, whatever its \<open>restaurant_id\<close>.
\<close>

theorem mutations_filter_by_id_only:
  "requests (updateLeaveStatus failure leaveId status) =
     [Update ''staff_leaves'' [(''status'', Str (status_text status))] [(''id'', Str leaveId)]]
   \<and> requests (handleDelete failure' ident) = [Delete ''staff'' [(''id'', Str ident)]]
   \<and> matches [(''id'', Str ident)] r = (r ''id'' = Some (Str ident))"
  by (cases failure; cases failure')
     (simp_all add: updateLeaveStatus_def handleDelete_def something_went_wrong_def matches_def)

theorem mutations_filter_by_id_only_witness:
  "requests (handleDelete None ''s2'') = [Delete ''staff'' [(''id'', Str ''s2'')]]
   \<and> matches [(''id'', Str ''s2'')] adam
   \<and> adam ''restaurant_id'' = Some (Str ''r2'')
   \<and> map (\<lambda>r. r ''id'') (exec (Delete ''staff'' [(''id'', Str ''s2'')]) example_db ''staff'')
       = [Some (Str ''s1''), Some (Str ''s3'')]"
proof -
  have ident: "adam ''id'' = Some (Str ''s2'')" and other: "adam ''restaurant_id'' = Some (Str ''r2'')"
    by (simp_all add: adam_def)
  from mutations_filter_by_id_only [of None "''l1''" approved None "''s2''" adam] ident
  have sent: "requests (handleDelete None ''s2'') = [Delete ''staff'' [(''id'', Str ''s2'')]]"
    and hit: "matches [(''id'', Str ''s2'')] adam"
    by simp_all
  have "map (\<lambda>r. r ''id'') (exec (Delete ''staff'' [(''id'', Str ''s2'')]) example_db ''staff'')
       = [Some (Str ''s1''), Some (Str ''s3'')]"
    by (simp add: example_db_def matches_def zoe_def adam_def bea_def)
  with sent hit other show ?thesis by simp
qed

section \<open>Properties of the staff roster\<close>

text \<open>
  C2. Every staff record that the roster's list query returns has the \<open>restaurant_id\<close>
  that the acting user's profile resolves to. The leave manager's staff query is filtered
  in the same way; it asks for four columns only, so each record it returns is that
  restriction of a staff row whose \<open>restaurant_id\<close> is the resolved one.
\<close>

theorem staff_lists_are_tenant_scoped:
  "(Staff_queryFn user failure d = Inr rows \<longrightarrow>
      (\<exists>uid rid. user = Some uid \<and> restaurant_id_of (userProfile_of uid d) = Some rid
         \<and> (\<forall>r \<in> set rows. r ''restaurant_id'' = Some (Str rid))))
   \<and> (restaurantIdQueryFn user d = Inr restaurantId
        \<and> staffQueryFn restaurantId failure d = Some (Inr rows) \<longrightarrow>
      (\<exists>uid rid. user = Some uid \<and> restaurant_id_of (userProfile_of uid d) = Some rid
         \<and> (\<forall>r \<in> set rows. \<exists>r0 \<in> set (d ''staff'').
               r0 ''restaurant_id'' = Some (Str rid)
               \<and> r = r0 |` {''id'', ''first_name'', ''last_name'', ''position''})))"
  by (auto simp: Staff_queryFn_def restaurantIdQueryFn_def staffQueryFn_def set_select_rows
        matches_single project_def split: option.splits if_splits)

theorem staff_lists_are_tenant_scoped_witness:
  "Staff_queryFn (Some ''u1'') None example_db = Inr [bea, zoe]
   \<and> restaurant_id_of (userProfile_of ''u1'' example_db) = Some ''r1''
   \<and> bea ''restaurant_id'' = Some (Str ''r1'')
   \<and> zoe ''restaurant_id'' = Some (Str ''r1'')"
proof -
  have cols: "zoe ''restaurant_id'' = Some (Str ''r1'')" "adam ''restaurant_id'' = Some (Str ''r2'')"
      "bea ''restaurant_id'' = Some (Str ''r1'')"
      "order_key ''first_name'' zoe = ''Zoe''" "order_key ''first_name'' bea = ''Bea''"
    by (simp_all add: zoe_def adam_def bea_def order_key_def)
  have tenant: "restaurant_id_of (userProfile_of ''u1'' example_db) = Some ''r1''"
    by (simp add: restaurant_id_of_def userProfile_of_def select_rows_def ordered_def matches_def
          project_def single_def example_db_def)
  have less: "''Bea'' \<le> ''Zoe''" "\<not> ''Zoe'' \<le> ''Bea''"
    by code_simp+
  have listed: "Staff_queryFn (Some ''u1'') None example_db = Inr [bea, zoe]"
    by (simp add: Staff_queryFn_def tenant truthy_def select_rows_def ordered_def matches_def
          project_def example_db_def cols less)
  from staff_lists_are_tenant_scoped [of "Some ''u1''" None example_db "[bea, zoe]"] listed tenant
  have "\<forall>r \<in> set [bea, zoe]. r ''restaurant_id'' = Some (Str ''r1'')"
    by simp
  with listed tenant show ?thesis by simp
qed

text \<open>
  C9. When \<open>handleSubmit\<close> runs for an existing member, it sends nothing besides the
  profile lookup and one update of \<open>staff\<close> filtered by the member's \<open>id\<close> (and it does
  send both once user and restaurant resolve). The update's values are exactly
  \<open>first_name\<close>, \<open>last_name\<close>, \<open>position\<close>, \<open>phone\<close>, \<open>email\<close> and \<open>Shift\<close>, so carrying
  it out leaves \<open>id\<close> and \<open>restaurant_id\<close> of every row as they were.
\<close>

theorem edit_updates_only_form_fields:
  assumes "editingStaff st = Some member"
  shows "(\<forall>req \<in> set (requests (fst (handleSubmit user failure st fd d))).
            (\<exists>uid. req = profile_request uid)
            \<or> req = Update ''staff'' (staffData fd) [(''id'', Str (id_of member))])
     \<and> (user = Some uid \<and> restaurant_id_of (userProfile_of uid d) = Some rid \<and> truthy rid \<longrightarrow>
          requests (fst (handleSubmit user failure st fd d)) =
            [profile_request uid, Update ''staff'' (staffData fd) [(''id'', Str (id_of member))]])
     \<and> map fst (staffData fd) =
          [''first_name'', ''last_name'', ''position'', ''phone'', ''email'', ''Shift'']
     \<and> map (\<lambda>r. r ''id'')
          (exec (Update ''staff'' (staffData fd) [(''id'', Str (id_of member))]) d' t)
        = map (\<lambda>r. r ''id'') (d' t)
     \<and> map (\<lambda>r. r ''restaurant_id'')
          (exec (Update ''staff'' (staffData fd) [(''id'', Str (id_of member))]) d' t)
        = map (\<lambda>r. r ''restaurant_id'') (d' t)"
proof (intro conjI)
  show "\<forall>req \<in> set (requests (fst (handleSubmit user failure st fd d))).
            (\<exists>uid. req = profile_request uid)
            \<or> req = Update ''staff'' (staffData fd) [(''id'', Str (id_of member))]"
    by (rule handleSubmit_requests [OF assms])
  show "user = Some uid \<and> restaurant_id_of (userProfile_of uid d) = Some rid \<and> truthy rid \<longrightarrow>
          requests (fst (handleSubmit user failure st fd d)) =
            [profile_request uid, Update ''staff'' (staffData fd) [(''id'', Str (id_of member))]]"
    using assms by (cases failure) (simp_all add: handleSubmit_def something_went_wrong_def)
  show "map fst (staffData fd) =
          [''first_name'', ''last_name'', ''position'', ''phone'', ''email'', ''Shift'']"
    by (simp add: staffData_def)
  have keys: "''id'' \<notin> fst ` set (staffData fd)" "''restaurant_id'' \<notin> fst ` set (staffData fd)"
    by (simp_all add: staffData_def)
  show "map (\<lambda>r. r ''id'')
          (exec (Update ''staff'' (staffData fd) [(''id'', Str (id_of member))]) d' t)
        = map (\<lambda>r. r ''id'') (d' t)"
    by (simp add: update_row_frame [OF keys(1)] comp_def)
  show "map (\<lambda>r. r ''restaurant_id'')
          (exec (Update ''staff'' (staffData fd) [(''id'', Str (id_of member))]) d' t)
        = map (\<lambda>r. r ''restaurant_id'') (d' t)"
    by (simp add: update_row_frame [OF keys(2)] comp_def)
qed

theorem edit_updates_only_form_fields_witness:
  "requests (fst (handleSubmit (Some ''u1'') None editing_zoe zoe_entries example_db))
     = [profile_request ''u1'', Update ''staff'' (staffData zoe_entries) [(''id'', Str ''s1'')]]
   \<and> map (\<lambda>r. r ''restaurant_id'')
        (exec (Update ''staff'' (staffData zoe_entries) [(''id'', Str ''s1'')]) example_db ''staff'')
       = [Some (Str ''r1''), Some (Str ''r2''), Some (Str ''r1'')]
   \<and> map (\<lambda>r. r ''first_name'')
        (exec (Update ''staff'' (staffData zoe_entries) [(''id'', Str ''s1'')]) example_db ''staff'')
       = [Some (Str ''Zoey''), Some (Str ''Adam''), Some (Str ''Bea'')]"
proof -
  have editing: "editingStaff editing_zoe = Some zoe"
    by (simp add: editing_zoe_def)
  have ident: "id_of zoe = ''s1''"
    by (simp add: id_of_def zoe_def)
  have tenant: "restaurant_id_of (userProfile_of ''u1'' example_db) = Some ''r1''"
    by (simp add: restaurant_id_of_def userProfile_of_def select_rows_def ordered_def matches_def
          project_def single_def example_db_def)
  have before: "map (\<lambda>r. r ''restaurant_id'') (example_db ''staff'')
                  = [Some (Str ''r1''), Some (Str ''r2''), Some (Str ''r1'')]"
    by (simp add: example_db_def zoe_def adam_def bea_def)
  have names: "map (\<lambda>r. r ''first_name'')
        (exec (Update ''staff'' (staffData zoe_entries) [(''id'', Str ''s1'')]) example_db ''staff'')
       = [Some (Str ''Zoey''), Some (Str ''Adam''), Some (Str ''Bea'')]"
    by (simp add: example_db_def update_row_def matches_def staffData_def form_get_def
          zoe_entries_def zoe_def adam_def bea_def)
  from edit_updates_only_form_fields [OF editing, of "Some ''u1''" None zoe_entries example_db
      "''u1''" "''r1''" example_db "''staff''"] tenant ident before
  have "requests (fst (handleSubmit (Some ''u1'') None editing_zoe zoe_entries example_db))
     = [profile_request ''u1'', Update ''staff'' (staffData zoe_entries) [(''id'', Str ''s1'')]]
   \<and> map (\<lambda>r. r ''restaurant_id'')
        (exec (Update ''staff'' (staffData zoe_entries) [(''id'', Str ''s1'')]) example_db ''staff'')
       = [Some (Str ''r1''), Some (Str ''r2''), Some (Str ''r1'')]"
    by (simp add: truthy_def)
  with names show ?thesis by simp
qed

section \<open>Properties of the menu item form\<close>

text \<open>
  C4. A file larger than 5 MiB, or whose MIME type does not start with \<open>image/\<close>, is
  answered by one destructive toast and nothing else: no network call, and the selected
  file stays what it was. An image of at most 5 MiB becomes the selected file.
\<close>

theorem handleFileChange_validates:
  "(file_size f > 5 * 1024 * 1024 \<or> \<not> prefix ''image/'' (file_type f) \<longrightarrow>
      (\<exists>t dsc. handleFileChange (f # fs) = [Toast (Notify t (Some dsc) True)])
      \<and> \<not> list_ex is_network (handleFileChange (f # fs))
      \<and> selectedFile (run (handleFileChange (f # fs)) st) = selectedFile st)
   \<and> (file_size f \<le> 5 * 1024 * 1024 \<and> prefix ''image/'' (file_type f) \<longrightarrow>
      handleFileChange (f # fs) = [SetSelectedFile (Some f)]
      \<and> selectedFile (run (handleFileChange (f # fs)) st) = Some f)"
  by (simp add: handleFileChange_def run_def)

theorem handleFileChange_validates_witness:
  "selectedFile (run (handleFileChange [huge]) chosen) = Some png
   \<and> \<not> list_ex is_network (handleFileChange [huge])
   \<and> selectedFile (run (handleFileChange [memo]) chosen) = Some png
   \<and> \<not> list_ex is_network (handleFileChange [memo])
   \<and> selectedFile (run (handleFileChange [png]) initial_form) = Some png"
proof -
  have big: "file_size huge > 5 * 1024 * 1024"
    by (simp add: huge_def)
  have plain: "\<not> prefix ''image/'' (file_type memo)"
    by (simp add: memo_def)
  have image: "file_size png \<le> 5 * 1024 * 1024 \<and> prefix ''image/'' (file_type png)"
    by (simp add: png_def)
  have before: "selectedFile chosen = Some png"
    using handleFileChange_validates [of png "[]" initial_form] image
    by (simp add: chosen_def after_def run_def)
  from handleFileChange_validates [of huge "[]" chosen] big before
  have a: "selectedFile (run (handleFileChange [huge]) chosen) = Some png
             \<and> \<not> list_ex is_network (handleFileChange [huge])"
    by simp
  from handleFileChange_validates [of memo "[]" chosen] plain before
  have b: "selectedFile (run (handleFileChange [memo]) chosen) = Some png
             \<and> \<not> list_ex is_network (handleFileChange [memo])"
    by simp
  from handleFileChange_validates [of png "[]" initial_form] image
  have c: "selectedFile (run (handleFileChange [png]) initial_form) = Some png"
    by (simp add: run_def)
  from a b c show ?thesis by simp
qed

text \<open>
  C5. Without a restaurant identifier (no profile, or a profile whose \<open>restaurant_id\<close>
  is null or empty) \<open>onSubmit\<close> does exactly this: it marks the form as submitting, logs,
  reports the error "No restaurant assigned to user" in a destructive toast, and clears
  the mark. No upload is attempted and no request is sent.
\<close>

theorem onSubmit_without_restaurant:
  "\<not> truthy_opt (restaurant_id_of userProfile) \<Longrightarrow>
   onSubmit userProfile st data rd ft failure =
     [SetIsSubmitting True, ConsoleLog ''Submitting menu item:'',
      ConsoleError ''Error adding menu item:'',
      Toast (Notify ''Error'' (Some ''No restaurant assigned to user'') True),
      SetIsSubmitting False]
   \<and> requests (onSubmit userProfile st data rd ft failure) = []
   \<and> \<not> list_ex is_network (onSubmit userProfile st data rd ft failure)"
  by (auto simp: onSubmit_def truthy_opt_def submit_failed_def message_or_def Let_def
        split: option.splits)

theorem onSubmit_without_restaurant_witness:
  "selectedFile chosen = Some png
   \<and> onSubmit None chosen (form chosen) good_read good_answer None =
     [SetIsSubmitting True, ConsoleLog ''Submitting menu item:'',
      ConsoleError ''Error adding menu item:'',
      Toast (Notify ''Error'' (Some ''No restaurant assigned to user'') True),
      SetIsSubmitting False]"
proof -
  have absent: "\<not> truthy_opt (restaurant_id_of None)"
    by (simp add: restaurant_id_of_def truthy_opt_def)
  have "selectedFile chosen = Some png"
    by (simp add: chosen_def after_def handleFileChange_def run_def png_def initial_form_def)
  with onSubmit_without_restaurant [OF absent, of chosen "form chosen" good_read good_answer None]
  show ?thesis by simp
qed

text \<open>
  C3. Let \<open>onSubmit\<close> perform the inline upload (a file is selected, no uploaded URL is
  held, the restaurant resolves) and let that upload fail in any of the ways it can: the
  reader reports an error or gives no result, \<open>fetch\<close> rejects, the HTTP status is not
  OK, the body does not parse, or the answer lacks status code 200 or the image URL. Then
  \<open>uploadImage\<close> answers null, the "Upload failed" toast is among the effects, and the
  one request sent is the insert into \<open>menu_items\<close> of the row written out below, whose
  \<open>image_url\<close> is the \<open>image_url\<close> of the submitted form values. In every state the
  open form can reach, submitted with its own values, that \<open>image_url\<close> is empty.
\<close>

theorem failed_upload_keeps_prior_url:
  assumes "selectedFile st = Some f" and "\<not> truthy (uploadedImageUrl st)"
    and "restaurant_id_of userProfile = Some rid" and "truthy rid"
    and "(\<exists>e. rd = ReadError e)
         \<or> (\<exists>r. rd = Loaded r \<and> \<not> truthy_opt r)
         \<or> (\<exists>e. ft = FetchRejected e)
         \<or> (\<exists>status b. ft = Response False status b)
         \<or> (\<exists>ok status e. ft = Response ok status (JsonRejected e))
         \<or> (\<exists>ok status code url. ft = Response ok status (Json code url)
               \<and> (code \<noteq> 200 \<or> \<not> truthy_opt url))"
  shows "fst (uploadImage (Some f) rd ft) = None
     \<and> requests (onSubmit userProfile st data rd ft failure)
           = [Insert ''menu_items''
               [[(''name'', Str (name data)),
                 (''description'', Str (description data)),
                 (''price'', Float (price data)),
                 (''category'', Str (category data)),
                 (''image_url'', Str (image_url data)),
                 (''restaurant_id'', Str rid),
                 (''is_available'', Bool True)]]]
     \<and> (\<exists>msg. Toast (Notify ''Upload failed'' (Some msg) True)
                 \<in> set (onSubmit userProfile st data rd ft failure))
     \<and> (st = after evs \<and> data = form st \<longrightarrow> image_url data = [])"
proof -
  from assms(5) have null: "fst (uploadImage (Some f) rd ft) = None"
  proof (elim disjE exE conjE)
    fix e assume "rd = ReadError e"
    then show ?thesis by (simp add: upload_fails_read)
  next
    fix r assume "rd = Loaded r" and "\<not> truthy_opt r"
    then show ?thesis by (simp add: upload_fails_no_result)
  next
    fix e assume "ft = FetchRejected e"
    then show ?thesis by (simp add: upload_fails_fetch)
  next
    fix status b assume "ft = Response False status b"
    then show ?thesis by (simp add: upload_fails_status)
  next
    fix ok status e assume "ft = Response ok status (JsonRejected e)"
    then show ?thesis by (simp add: upload_fails_body)
  next
    fix ok status code url
    assume "ft = Response ok status (Json code url)" and "code \<noteq> 200"
    then show ?thesis using upload_fails_answer [of code url f rd ok status] by simp
  next
    fix ok status code url
    assume "ft = Response ok status (Json code url)" and "\<not> truthy_opt url"
    then show ?thesis using upload_fails_answer [of code url f rd ok status] by simp
  qed
  then obtain es where up: "uploadImage (Some f) rd ft = (None, es)"
    by (cases "uploadImage (Some f) rd ft") simp
  have no_req: "requests es = []"
    using uploadImage_requests [of "Some f" rd ft] up by simp
  have sent: "requests (onSubmit userProfile st data rd ft failure)
           = [Insert ''menu_items''
               [[(''name'', Str (name data)),
                 (''description'', Str (description data)),
                 (''price'', Float (price data)),
                 (''category'', Str (category data)),
                 (''image_url'', Str (image_url data)),
                 (''restaurant_id'', Str rid),
                 (''is_available'', Bool True)]]]"
    using assms(1-4) up no_req
    by (cases failure)
       (simp_all add: onSubmit_def submit_failed_def requests_append menu_item_def)
  from upload_failed_toast [OF null] up
  obtain msg where "Toast (Notify ''Upload failed'' (Some msg) True) \<in> set es"
    by (elim exE) simp
  then have toast: "Toast (Notify ''Upload failed'' (Some msg) True)
                 \<in> set (onSubmit userProfile st data rd ft failure)"
    using assms(1-4) up
    by (cases failure) (simp_all add: onSubmit_def submit_failed_def)
  have shown: "\<exists>msg. Toast (Notify ''Upload failed'' (Some msg) True)
                 \<in> set (onSubmit userProfile st data rd ft failure)"
    by (rule exI [where x = msg]) (rule toast)
  have empty: "st = after evs \<and> data = form st \<longrightarrow> image_url data = []"
  proof
    assume "st = after evs \<and> data = form st"
    then have "image_url data = uploadedImageUrl st" by (simp add: after_url_in_step)
    with assms(2) show "image_url data = []" by (simp add: truthy_def)
  qed
  from null sent shown empty show ?thesis by (intro conjI)
qed

theorem failed_upload_keeps_prior_url_witness:
  "requests (onSubmit (Some owner) drafted (form drafted) good_read
               (Response False 503 (JsonRejected Other)) None)
     = [Insert ''menu_items'' [dal_row]]
   \<and> requests (onSubmit (Some owner) drafted (form drafted) good_read
               (Response True 200 (Json 200 None)) None)
     = [Insert ''menu_items'' [dal_row]]
   \<and> requests (onSubmit (Some owner) drafted (form drafted) (ReadError (Err ''NotReadableError''))
               good_answer None)
     = [Insert ''menu_items'' [dal_row]]
   \<and> map_of dal_row ''image_url'' = Some (Str [])"
proof -
  have sel: "selectedFile drafted = Some png" and url: "\<not> truthy (uploadedImageUrl drafted)"
    and fields: "form drafted = \<lparr>name = ''Dal'', description = [], price = ''12.50'',
                                 category = [], image_url = []\<rparr>"
    by (simp_all add: drafted_def after_def handleFileChange_def run_def png_def
          initial_form_def setValue_def truthy_def)
  have rid: "restaurant_id_of (Some owner) = Some ''r1''" and ok: "truthy ''r1''"
    by (simp_all add: restaurant_id_of_def owner_def truthy_def)
  have status: "(\<exists>e. good_read = ReadError e)
         \<or> (\<exists>r. good_read = Loaded r \<and> \<not> truthy_opt r)
         \<or> (\<exists>e. Response False 503 (JsonRejected Other) = FetchRejected e)
         \<or> (\<exists>status b. Response False 503 (JsonRejected Other) = Response False status b)
         \<or> (\<exists>ok status e. Response False 503 (JsonRejected Other) = Response ok status (JsonRejected e))
         \<or> (\<exists>ok status code url. Response False 503 (JsonRejected Other) = Response ok status (Json code url)
               \<and> (code \<noteq> 200 \<or> \<not> truthy_opt url))"
    by simp
  have missing: "(\<exists>e. good_read = ReadError e)
         \<or> (\<exists>r. good_read = Loaded r \<and> \<not> truthy_opt r)
         \<or> (\<exists>e. Response True 200 (Json 200 None) = FetchRejected e)
         \<or> (\<exists>status b. Response True 200 (Json 200 None) = Response False status b)
         \<or> (\<exists>ok status e. Response True 200 (Json 200 None) = Response ok status (JsonRejected e))
         \<or> (\<exists>ok status code url. Response True 200 (Json 200 None) = Response ok status (Json code url)
               \<and> (code \<noteq> 200 \<or> \<not> truthy_opt url))"
    by (auto simp: truthy_opt_def)
  have unread: "(\<exists>e. ReadError (Err ''NotReadableError'') = ReadError e)
         \<or> (\<exists>r. ReadError (Err ''NotReadableError'') = Loaded r \<and> \<not> truthy_opt r)
         \<or> (\<exists>e. good_answer = FetchRejected e)
         \<or> (\<exists>status b. good_answer = Response False status b)
         \<or> (\<exists>ok status e. good_answer = Response ok status (JsonRejected e))
         \<or> (\<exists>ok status code url. good_answer = Response ok status (Json code url)
               \<and> (code \<noteq> 200 \<or> \<not> truthy_opt url))"
    by simp
  have row: "[(''name'', Str (name (form drafted))),
              (''description'', Str (description (form drafted))),
              (''price'', Float (price (form drafted))),
              (''category'', Str (category (form drafted))),
              (''image_url'', Str (image_url (form drafted))),
              (''restaurant_id'', Str ''r1''),
              (''is_available'', Bool True)] = dal_row"
    by (simp add: fields dal_row_def)
  from failed_upload_keeps_prior_url [OF sel url rid ok status, of "form drafted" None] row
  have a: "requests (onSubmit (Some owner) drafted (form drafted) good_read
               (Response False 503 (JsonRejected Other)) None)
     = [Insert ''menu_items'' [dal_row]]"
    by simp
  from failed_upload_keeps_prior_url [OF sel url rid ok missing, of "form drafted" None] row
  have b: "requests (onSubmit (Some owner) drafted (form drafted) good_read
               (Response True 200 (Json 200 None)) None)
     = [Insert ''menu_items'' [dal_row]]"
    by simp
  from failed_upload_keeps_prior_url [OF sel url rid ok unread, of "form drafted" None] row
  have c: "requests (onSubmit (Some owner) drafted (form drafted) (ReadError (Err ''NotReadableError''))
               good_answer None)
     = [Insert ''menu_items'' [dal_row]]"
    by simp
  have "map_of dal_row ''image_url'' = Some (Str [])"
    by (simp add: dal_row_def)
  with a b c show ?thesis by simp
qed

text \<open>
  C7. One upload attempt sets the progress to 10, 30, 50, 80 and 100 in that order and
  last to 0, or stops short of them at the failure: after 10 (the reader), after 50
  (\<open>fetch\<close>), after 80 (status or body) or after 100 (the parsed answer), and then sets 0.
  A successful attempt passes all five. The values are constants of the code and the
  attempt does not depend on the file; when it ends the progress is 0 and the uploading
  flag is off. Without a selected file nothing is done.
\<close>

theorem uploadImage_progress:
  "progress_trace (snd (uploadImage (Some f) rd ft)) \<in>
      {[10, 0], [10, 30, 50, 0], [10, 30, 50, 80, 0], [10, 30, 50, 80, 100, 0]}
   \<and> (fst (uploadImage (Some f) rd ft) \<noteq> None \<longrightarrow>
        progress_trace (snd (uploadImage (Some f) rd ft)) = [10, 30, 50, 80, 100, 0])
   \<and> uploadProgress (run (snd (uploadImage (Some f) rd ft)) st) = 0
   \<and> \<not> isUploading (run (snd (uploadImage (Some f) rd ft)) st)
   \<and> uploadImage (Some g) rd ft = uploadImage (Some f) rd ft
   \<and> uploadImage None rd ft = (None, [])"
proof -
  let ?es = "fst (upload_try rd ft)"
  have tr: "progress_trace ?es \<in> {[10], [10, 30, 50], [10, 30, 50, 80], [10, 30, 50, 80, 100]}"
    and ok: "\<And>u. snd (upload_try rd ft) = Inr u \<Longrightarrow> progress_trace ?es = [10, 30, 50, 80, 100]"
    using upload_try_progress [of rd ft] by simp_all
  have fin: "progress_trace upload_finally = [0]" and cat: "progress_trace (upload_failed e) = []" for e
    by (simp_all add: upload_finally_def upload_failed_def)
  have same: "uploadImage (Some g) rd ft = uploadImage (Some f) rd ft"
    and none: "uploadImage None rd ft = (None, [])"
    by (simp_all add: uploadImage_def)
  show ?thesis
  proof (cases "snd (upload_try rd ft)")
    case (Inl e)
    then have eq: "uploadImage (Some f) rd ft = (None, (?es @ upload_failed e) @ upload_finally)"
      by (simp add: uploadImage_Some)
    then have "progress_trace (snd (uploadImage (Some f) rd ft)) = progress_trace ?es @ [0]"
      by (simp add: progress_trace_append fin cat)
    with tr have "progress_trace (snd (uploadImage (Some f) rd ft)) \<in>
      {[10, 0], [10, 30, 50, 0], [10, 30, 50, 80, 0], [10, 30, 50, 80, 100, 0]}" by auto
    moreover have "fst (uploadImage (Some f) rd ft) = None" using eq by simp
    moreover have "uploadProgress (run (snd (uploadImage (Some f) rd ft)) st) = 0
        \<and> \<not> isUploading (run (snd (uploadImage (Some f) rd ft)) st)"
      using upload_finally_state [of "?es @ upload_failed e" st] eq by simp
    ultimately show ?thesis using same none by simp
  next
    case (Inr u)
    then have eq: "uploadImage (Some f) rd ft = (Some u, ?es @ upload_finally)"
      by (simp add: uploadImage_Some)
    then have "progress_trace (snd (uploadImage (Some f) rd ft)) = [10, 30, 50, 80, 100, 0]"
      by (simp add: progress_trace_append fin ok [OF Inr])
    moreover have "uploadProgress (run (snd (uploadImage (Some f) rd ft)) st) = 0
        \<and> \<not> isUploading (run (snd (uploadImage (Some f) rd ft)) st)"
      using upload_finally_state [of ?es st] eq by simp
    ultimately show ?thesis using same none by simp
  qed
qed

theorem uploadImage_progress_witness:
  "fst (uploadImage (Some png) good_read good_answer) = Some ''https://iili.io/dish.png''
   \<and> progress_trace (snd (uploadImage (Some png) good_read good_answer)) = [10, 30, 50, 80, 100, 0]
   \<and> progress_trace (snd (uploadImage (Some png) good_read (Response False 503 (JsonRejected Other))))
       = [10, 30, 50, 80, 0]"
proof -
  have url: "fst (uploadImage (Some png) good_read good_answer) = Some ''https://iili.io/dish.png''"
    by (simp add: uploadImage_def upload_try_def good_read_def good_answer_def truthy_def)
  from uploadImage_progress [of png good_read good_answer initial_form png] url
  have "progress_trace (snd (uploadImage (Some png) good_read good_answer)) = [10, 30, 50, 80, 100, 0]"
    by simp
  moreover have "progress_trace (snd (uploadImage (Some png) good_read (Response False 503 (JsonRejected Other))))
       = [10, 30, 50, 80, 0]"
    by (simp add: uploadImage_def upload_try_def good_read_def truthy_def upload_failed_def
          upload_finally_def upload_request_def)
  ultimately show ?thesis using url by simp
qed

section \<open>The day count of a leave\<close>

text \<open>
  C6. The badge is to show the end date minus the start date, in whole days, plus one.
  It does wherever the browser's offset from UTC is the same at the two dates
  (\<open>dayCount_same_offset\<close>, \<open>dayCount_nth_day\<close>). Across a change of the clocks it falls
  short: the leave from 2024-11-02 to 2024-11-04, three days, is shown in New York with
  2 days, the clocks going back on 2024-11-03, while the same row shows 3 under UTC.
\<close>

theorem dayCount_across_clock_change:
  "parse_date ''2024-11-02'' = Some (2024, 11, 2)
   \<and> parse_date ''2024-11-04'' = Some (2024, 11, 4)
   \<and> (next_day ^^ 2) (2024, 11, 2) = (2024, 11, 4)
   \<and> day_number (2024, 11, 4) - day_number (2024, 11, 2) + 1 = 3
   \<and> wall_clock new_york (day_number (2024, 11, 2) * millisecondsInDay) = (20028, 72000000)
   \<and> wall_clock new_york (day_number (2024, 11, 4) * millisecondsInDay) = (20030, 68400000)
   \<and> dayCount new_york november_leave = Some 2
   \<and> dayCount utc november_leave = Some 3"
proof (intro conjI)
  show "parse_date ''2024-11-02'' = Some (2024, 11, 2)" by code_simp
  show "parse_date ''2024-11-04'' = Some (2024, 11, 4)" by code_simp
  show "(next_day ^^ 2) (2024, 11, 2) = (2024, 11, 4)"
    by (simp add: numeral_2_eq_2 next_day_def days_in_month_def)
  show "day_number (2024, 11, 4) - day_number (2024, 11, 2) + 1 = 3" by code_simp
  show "wall_clock new_york (day_number (2024, 11, 2) * millisecondsInDay) = (20028, 72000000)"
    by code_simp
  show "wall_clock new_york (day_number (2024, 11, 4) * millisecondsInDay) = (20030, 68400000)"
    by code_simp
  show "dayCount new_york november_leave = Some 2" by code_simp
  show "dayCount utc november_leave = Some 3" by code_simp
qed

end
